theory Spec2Isabelle
  imports Main "HOL-Library.AList"
begin

section \<open>The solve orchestrator of llbsolver/solver.go\<close>

text \<open>
  The orchestrator of \<^verbatim>\<open>solver.go\<close> sequences calls into collaborators that live in
  other packages (the solving engine, the bridge, content and cache exporters, the
  progress sink). The embedding keeps the control flow of the Go functions and makes
  their effects explicit: every call into a collaborator is appended to a trace kept in
  the world state, and what a collaborator answers is an input of the model.
  A Go \<^verbatim>\<open>error\<close> result is an \<open>error option\<close> (\<open>None\<close> is \<^verbatim>\<open>nil\<close>), a
  \<^verbatim>\<open>(value, error)\<close> result that is one or the other is a sum, and a run-time panic is
  the outcome \<open>Panics\<close>, under which deferred calls still run.
\<close>

subsection \<open>Values\<close>

text \<open>An \<^verbatim>\<open>error\<close> value; \<open>message e\<close> is \<^verbatim>\<open>e.Error()\<close>.\<close>

datatype error = Errorf (message: string)

datatype 'a outcome = Returns 'a | Panics

type_synonym time = nat

text \<open>\<^verbatim>\<open>digest.FromBytes([]byte(id))\<close> of an identity; the hash is kept symbolic.\<close>

datatype digest = FromBytes nat

text \<open>A \<^verbatim>\<open>context.Context\<close>: the values the orchestrator reads from it or attaches to it.\<close>

record Context =
  ctx_session :: string
  ctx_job :: "string option"
  ctx_meta :: "(string \<times> digest) list"

text \<open>\<^verbatim>\<open>client.Vertex\<close>, with the fields \<^verbatim>\<open>solver.go\<close> sets.\<close>

record Vertex =
  Digest :: digest
  Name :: string
  Started :: "time option"
  Completed :: "time option"
  Cached :: bool
  Error :: string

text \<open>\<^verbatim>\<open>progress.Status\<close>, with the fields \<^verbatim>\<open>solver.go\<close> sets.\<close>

record Status =
  st_Started :: "time option"
  st_Completed :: "time option"

datatype payload = VertexP Vertex | StatusP Status

text \<open>
  The id of a progress write is a string: either a given name or the string form of a
  digest (\<^verbatim>\<open>v.Digest.String()\<close>), kept symbolic.
\<close>

datatype progress_id = Id string | DigestString digest

record Writer =
  pw_id :: nat
  pw_meta :: "(string \<times> digest) list"

type_synonym ImmutableRef = nat

text \<open>
  The dynamic type of \<^verbatim>\<open>res.Sys()\<close>: a \<^verbatim>\<open>*worker.WorkerRef\<close> with its
  \<^verbatim>\<open>ImmutableRef\<close> field (an interface value, possibly nil), or a value of another
  type, given by the name \<^verbatim>\<open>%T\<close> prints.
\<close>

datatype sys = WorkerRef "ImmutableRef option" | OtherSys string

datatype converter = workerRefConverter

record CacheExportOpt =
  Convert :: converter
  Mode :: int

text \<open>
  A cache key of a reference with its exporter; \<open>ExportTo\<close> is the error that
  \<^verbatim>\<open>Exporter.ExportTo(ctx, target, opt)\<close> answers for a target (a cache exporter,
  by its identity).
\<close>

record ExportableCacheKey =
  CacheKey :: nat
  ExportTo :: "Context \<Rightarrow> nat \<Rightarrow> CacheExportOpt \<Rightarrow> error option"

text \<open>A \<^verbatim>\<open>solver.CachedResult\<close>: a content reference, identified by \<open>ref\<close>.\<close>

record CachedResult =
  ref :: nat
  Sys :: sys
  CacheKeys :: "ExportableCacheKey list"

text \<open>
  \<^verbatim>\<open>frontend.Result\<close>. A Go map is an association list with distinct keys, in the order
  a \<^verbatim>\<open>range\<close> visits it; \<open>None\<close> is the nil map, and an entry may hold nil.
\<close>

record Result =
  Ref :: "CachedResult option"
  Refs :: "(string \<times> CachedResult option) list option"
  Metadata :: "(string \<times> string) list"

text \<open>\<^verbatim>\<open>exporter.Source\<close>.\<close>

record Source =
  src_Metadata :: "(string \<times> string) list"
  src_Ref :: "ImmutableRef option"
  src_Refs :: "(string \<times> ImmutableRef option) list option"

text \<open>
  \<^verbatim>\<open>exporter.ExporterInstance\<close>: its name and what \<^verbatim>\<open>Export(ctx, inp)\<close> answers, a
  response map (\<open>None\<close> is the nil map) and an error.
\<close>

record ExporterInstance =
  exp_Name :: string
  exp_Export :: "Context \<Rightarrow> Source \<Rightarrow> (string \<times> string) list option \<times> error option"

text \<open>
  \<^verbatim>\<open>remotecache.Exporter\<close>: its identity as an export target and what
  \<^verbatim>\<open>Finalize(ctx)\<close> answers.
\<close>

record CacheExporterInstance =
  target :: nat
  ce_Finalize :: "Context \<Rightarrow> error option"

record ExporterRequest =
  Exporter :: "ExporterInstance option"
  CacheExporter :: "CacheExporterInstance option"
  CacheExportMode :: int

record SolveResponse =
  ExporterResponse :: "(string \<times> string) list option"

record Job =
  job_id :: string
  SessionID :: string

subsection \<open>The world: trace of collaborator calls, clock, generators, live jobs\<close>

datatype event =
    Call_Discard string
  | Go_Release nat
  | Call_Export string Source
  | Call_ExportTo nat nat CacheExportOpt
  | Call_Finalize nat
  | Call_Status string nat
  | Pw_Write Writer progress_id payload
  | Pw_Close Writer

record world =
  trace :: "event list"
  clock :: nat
  ids :: nat
  writers :: nat
  jobs :: "string \<rightharpoonup> Job"

definition emit :: "event \<Rightarrow> world \<Rightarrow> world" where
  "emit e w = w\<lparr>trace := trace w @ [e]\<rparr>"

text \<open>\<^verbatim>\<open>time.Now()\<close>: a logical clock, the n-th reading is n.\<close>

definition Now :: "world \<Rightarrow> time \<times> world" where
  "Now w = (clock w, w\<lparr>clock := Suc (clock w)\<rparr>)"

text \<open>\<^verbatim>\<open>identity.NewID()\<close>: every call draws the next unused identity.\<close>

definition NewID :: "world \<Rightarrow> nat \<times> world" where
  "NewID w = (ids w, w\<lparr>ids := Suc (ids w)\<rparr>)"

text \<open>
  Modelled from the spec: \<^verbatim>\<open>progress.FromContext\<close>, \<^verbatim>\<open>Write\<close> and \<^verbatim>\<open>Close\<close> of the
  progress package, which is not among the sources. The progress sink is "a
  context-scoped event channel accepting named status writes; supports attaching
  metadata to derived contexts": \<open>FromContext\<close> hands out a new writer carrying the
  metadata of the context extended by the given options, with the derived context;
  a write and a close are recorded in the trace.
\<close>

definition FromContext ::
  "Context \<Rightarrow> (string \<times> digest) list \<Rightarrow> world \<Rightarrow> (Writer \<times> bool \<times> Context) \<times> world" where
  "FromContext ctx opts w =
     (let ctx' = ctx\<lparr>ctx_meta := ctx_meta ctx @ opts\<rparr>
      in ((\<lparr>pw_id = writers w, pw_meta = ctx_meta ctx'\<rparr>, True, ctx'),
          w\<lparr>writers := Suc (writers w)\<rparr>))"

definition Write :: "Writer \<Rightarrow> progress_id \<Rightarrow> payload \<Rightarrow> world \<Rightarrow> world" where
  "Write pw i p w = emit (Pw_Write pw i p) w"

definition Close :: "Writer \<Rightarrow> world \<Rightarrow> world" where
  "Close pw w = emit (Pw_Close pw) w"

subsection \<open>Progress helpers of solver.go\<close>

text \<open>
  \<^verbatim>\<open>oneOffProgress\<close> (lines 178-193) writes the started status and returns a closure;
  the closure writes the completed status, closes the writer and returns its argument.
  The status it writes has no field for the error.
\<close>

definition oneOffProgress ::
  "Context \<Rightarrow> string \<Rightarrow> world \<Rightarrow> (error option \<Rightarrow> world \<Rightarrow> error option \<times> world) \<times> world" where
  "oneOffProgress ctx i w =
     (let ((pw, ok, c), w1) = FromContext ctx [] w;
          (now, w2) = Now w1;
          st = \<lparr>st_Started = Some now, st_Completed = None\<rparr>;
          w3 = Write pw (Id i) (StatusP st) w2
      in (\<lambda>err w.
            let (now, w4) = Now w;
                st' = st\<lparr>st_Completed := Some now\<rparr>;
                w5 = Write pw (Id i) (StatusP st') w4;
                w6 = Close pw w5
            in (err, w6),
          w3))"

text \<open>\<^verbatim>\<open>notifyStarted\<close> (lines 208-216); the vertex is updated through the pointer.\<close>

definition notifyStarted :: "Context \<Rightarrow> Vertex \<Rightarrow> bool \<Rightarrow> world \<Rightarrow> Vertex \<times> world" where
  "notifyStarted ctx v cached w =
     (let ((pw, ok, c), w1) = FromContext ctx [] w;
          (now, w2) = Now w1;
          v' = v\<lparr>Started := Some now, Completed := None, Cached := cached\<rparr>;
          w3 = Write pw (DigestString (Digest v')) (VertexP v') w2
      in (v', Close pw w3))"

text \<open>\<^verbatim>\<open>notifyCompleted\<close> (lines 218-231).\<close>

definition notifyCompleted ::
  "Context \<Rightarrow> Vertex \<Rightarrow> error option \<Rightarrow> bool \<Rightarrow> world \<Rightarrow> Vertex \<times> world" where
  "notifyCompleted ctx v err cached w =
     (let ((pw, ok, c), w1) = FromContext ctx [] w;
          (now, w2) = Now w1;
          v1 = (if Started v = None then v\<lparr>Started := Some now\<rparr> else v);
          v2 = v1\<lparr>Completed := Some now, Cached := cached\<rparr>;
          v3 = (case err of None \<Rightarrow> v2 | Some e \<Rightarrow> v2\<lparr>Error := message e\<rparr>);
          w3 = Write pw (DigestString (Digest v3)) (VertexP v3) w2
      in (v3, Close pw w3))"

text \<open>
  \<^verbatim>\<open>inVertexContext\<close> (lines 195-206). The phase function is a closure: it runs on the
  world and on the variables \<open>'l\<close> it captured from its caller. When it panics the
  deferred close of the writer runs and the panic goes on; the completed event is
  not written then.
\<close>

definition inVertexContext ::
  "Context \<Rightarrow> string \<Rightarrow> (Context \<Rightarrow> 'l \<times> world \<Rightarrow> error option outcome \<times> 'l \<times> world) \<Rightarrow>
     'l \<times> world \<Rightarrow> error option outcome \<times> 'l \<times> world" where
  "inVertexContext ctx name f lw =
     (let (l, w) = lw;
          (i, w1) = NewID w;
          v = \<lparr>Digest = FromBytes i, Name = name, Started = None, Completed = None,
               Cached = False, Error = []\<rparr>;
          ((pw, ok, ctx'), w2) = FromContext ctx [(''vertex'', Digest v)] w1;
          (v', w3) = notifyStarted ctx' v False w2
      in case f ctx' (l, w3) of
           (Panics, l', w4) \<Rightarrow> (Panics, l', Close pw w4)
         | (Returns err, l', w4) \<Rightarrow>
             (let (v'', w5) = notifyCompleted ctx' v' err False w4
              in (Returns err, l', Close pw w5)))"

subsection \<open>The solving engine and the bridge\<close>

definition ErrJobExists :: "string \<Rightarrow> error" where
  "ErrJobExists i = Errorf (''job ID '' @ i @ '' exists'')"

definition ErrJobNotFound :: "string \<Rightarrow> error" where
  "ErrJobNotFound i = Errorf (''job not found: '' @ i)"

text \<open>
  Modelled from the spec: \<^verbatim>\<open>NewJob\<close>, \<^verbatim>\<open>Get\<close> and \<^verbatim>\<open>Discard\<close> of the solving engine
  (\<^verbatim>\<open>solver.Solver\<close>, \<^verbatim>\<open>solver.Job\<close>), which are not among the sources. A job id "must
  not collide with another currently-live job in the same engine instance (engine
  surfaces a conflict error otherwise)"; a job is "retrievable by id for status
  streaming until discarded"; the lookup "fails with job not found if the Job has
  already been discarded or never existed".
\<close>

definition NewJob :: "string \<Rightarrow> world \<Rightarrow> (error + Job) \<times> world" where
  "NewJob i w =
     (case jobs w i of
        Some j \<Rightarrow> (Inl (ErrJobExists i), w)
      | None \<Rightarrow>
          (let j = \<lparr>job_id = i, SessionID = []\<rparr>
           in (Inr j, w\<lparr>jobs := (jobs w)(i \<mapsto> j)\<rparr>)))"

definition Get :: "string \<Rightarrow> world \<Rightarrow> error + Job" where
  "Get i w = (case jobs w i of None \<Rightarrow> Inl (ErrJobNotFound i) | Some j \<Rightarrow> Inr j)"

definition Discard :: "Job \<Rightarrow> world \<Rightarrow> world" where
  "Discard j w = emit (Call_Discard (job_id j)) (w\<lparr>jobs := (jobs w)(job_id j := None)\<rparr>)"

text \<open>\<^verbatim>\<open>j.SessionID = ...\<close>: the job is shared with the engine's table of live jobs.\<close>

definition set_SessionID :: "Job \<Rightarrow> string \<Rightarrow> world \<Rightarrow> Job \<times> world" where
  "set_SessionID j sid w =
     (let j' = j\<lparr>SessionID := sid\<rparr>
      in (j', w\<lparr>jobs := (jobs w)(job_id j \<mapsto> j')\<rparr>))"

text \<open>\<^verbatim>\<open>session.FromContext(ctx)\<close> and \<^verbatim>\<open>j.Context(ctx)\<close>.\<close>

definition session_FromContext :: "Context \<Rightarrow> string" where
  "session_FromContext ctx = ctx_session ctx"

definition Job_Context :: "Job \<Rightarrow> Context \<Rightarrow> Context" where
  "Job_Context j ctx = ctx\<lparr>ctx_job := Some (job_id j)\<rparr>"

text \<open>
  \<^verbatim>\<open>Solver\<close> and \<^verbatim>\<open>llbBridge\<close>, with the fields that are data: the frontends by name and
  the platforms. \<^verbatim>\<open>Bridge\<close> (lines 70-79) binds them to a job, with an empty table of
  cache managers.
\<close>

record Solver =
  frontends :: "string list"
  platforms :: "string list"

record llbBridge =
  builder :: Job
  br_frontends :: "string list"
  cms :: "string list"
  br_platforms :: "string list"

definition Bridge :: "Solver \<Rightarrow> Job \<Rightarrow> llbBridge" where
  "Bridge s b = \<lparr>builder = b, br_frontends = frontends s, cms = [], br_platforms = platforms s\<rparr>"

subsection \<open>The references of a result\<close>

text \<open>
  Modelled from the spec: \<^verbatim>\<open>frontend.Result.EachRef\<close>, which is not among the sources.
  It visits "every content reference in the Result (primary first, then each named
  reference, order otherwise unspecified)", and "any failure ... short-circuits
  remaining refs". A nil entry of the named map holds no reference. The order of the
  named references is the order of the association list. A panic of the callback ends
  the visit.
\<close>

definition result_refs :: "Result \<Rightarrow> CachedResult list" where
  "result_refs res =
     (case Ref res of None \<Rightarrow> [] | Some r \<Rightarrow> [r]) @
     (case Refs res of None \<Rightarrow> [] | Some m \<Rightarrow> List.map_filter snd m)"

fun each ::
  "(CachedResult \<Rightarrow> world \<Rightarrow> error option outcome \<times> world) \<Rightarrow> CachedResult list \<Rightarrow> world \<Rightarrow>
     error option outcome \<times> world" where
  "each fn [] w = (Returns None, w)"
| "each fn (r # rs) w =
     (case fn r w of
        (Returns None, w') \<Rightarrow> each fn rs w'
      | (Returns (Some err), w') \<Rightarrow> (Returns (Some err), w')
      | (Panics, w') \<Rightarrow> (Panics, w'))"

definition EachRef ::
  "Result \<Rightarrow> (CachedResult \<Rightarrow> world \<Rightarrow> error option outcome \<times> world) \<Rightarrow> world \<Rightarrow>
     error option outcome \<times> world" where
  "EachRef res fn w = each fn (result_refs res) w"

subsection \<open>Solve\<close>

text \<open>
  The deferred closure of lines 96-101: \<^verbatim>\<open>go ref.Release(context.TODO())\<close> for each
  reference. Starting the goroutine is the event; nothing waits for it.
\<close>

definition release_refs :: "Result \<Rightarrow> world \<Rightarrow> world" where
  "release_refs res w = snd (EachRef res (\<lambda>r w. (Returns None, emit (Go_Release (ref r)) w)) w)"

text \<open>
  The loop of lines 117-127 over the named references, filling the map \<open>m\<close>: a nil
  entry is stored as nil, another entry must be a worker reference.
\<close>

fun Refs_loop ::
  "(string \<times> CachedResult option) list \<Rightarrow> (string \<times> ImmutableRef option) list \<Rightarrow>
     error + (string \<times> ImmutableRef option) list" where
  "Refs_loop [] m = Inr m"
| "Refs_loop ((k, None) # rs) m = Refs_loop rs (AList.update k None m)"
| "Refs_loop ((k, Some r) # rs) m =
     (case Sys r of
        WorkerRef i \<Rightarrow> Refs_loop rs (AList.update k i m)
      | OtherSys t \<Rightarrow> Inl (Errorf (''invalid reference: '' @ t)))"

text \<open>Lines 105-129: the export source, or the error of the first reference of another type.\<close>

definition Solve_inp :: "Result \<Rightarrow> error + Source" where
  "Solve_inp res =
     (case (case Ref res of
              None \<Rightarrow> Inr None
            | Some r \<Rightarrow>
                (case Sys r of
                   WorkerRef i \<Rightarrow> Inr i
                 | OtherSys t \<Rightarrow> Inl (Errorf (''invalid reference: '' @ t)))) of
        Inl e \<Rightarrow> Inl e
      | Inr i \<Rightarrow>
          (case Refs res of
             None \<Rightarrow> Inr \<lparr>src_Metadata = Metadata res, src_Ref = i, src_Refs = None\<rparr>
           | Some rs \<Rightarrow>
               (case Refs_loop rs [] of
                  Inl e \<Rightarrow> Inl e
                | Inr m \<Rightarrow> Inr \<lparr>src_Metadata = Metadata res, src_Ref = i, src_Refs = Some m\<rparr>)))"

text \<open>
  Lines 103-137, content export. The closure given to \<^verbatim>\<open>inVertexContext\<close> assigns the
  captured variable \<^verbatim>\<open>exporterResponse\<close>. The result is the error that ends Solve, if
  any, with the value of \<^verbatim>\<open>exporterResponse\<close>.
\<close>

definition Solve_content ::
  "Context \<Rightarrow> Job \<Rightarrow> Result \<Rightarrow> ExporterRequest \<Rightarrow> world \<Rightarrow>
     error option outcome \<times> (string \<times> string) list option \<times> world" where
  "Solve_content ctx j res exp w =
     (case Exporter exp of
        None \<Rightarrow> (Returns None, None, w)
      | Some x \<Rightarrow>
          (case Solve_inp res of
             Inl e \<Rightarrow> (Returns (Some e), None, w)
           | Inr inp \<Rightarrow>
               inVertexContext (Job_Context j ctx) (exp_Name x)
                 (\<lambda>ctx (l, w).
                    let (resp, err) = exp_Export x ctx inp
                    in (Returns err, resp, emit (Call_Export (exp_Name x) inp) w))
                 (None, w)))"

text \<open>
  Lines 142-148: the callback of the cache export. \<^verbatim>\<open>res.CacheKeys()[0]\<close> panics on an
  empty list.
\<close>

definition export_first_key ::
  "Context \<Rightarrow> CacheExporterInstance \<Rightarrow> int \<Rightarrow> CachedResult \<Rightarrow> world \<Rightarrow> error option outcome \<times> world" where
  "export_first_key ctx e mode r w =
     (case CacheKeys r of
        [] \<Rightarrow> (Panics, w)
      | k # ks \<Rightarrow>
          (let opt = \<lparr>Convert = workerRefConverter, Mode = mode\<rparr>
           in (Returns (ExportTo k ctx (target e) opt),
               emit (Call_ExportTo (CacheKey k) (target e) opt) w)))"

text \<open>Lines 140-154: the closure of the cache export phase.\<close>

definition cache_phase ::
  "CacheExporterInstance \<Rightarrow> int \<Rightarrow> Result \<Rightarrow> Context \<Rightarrow> unit \<times> world \<Rightarrow>
     error option outcome \<times> unit \<times> world" where
  "cache_phase e mode res ctx lw =
     (let (prepareDone, w1) = oneOffProgress ctx ''preparing build cache for export'' (snd lw)
      in case EachRef res (export_first_key ctx e mode) w1 of
           (Panics, w2) \<Rightarrow> (Panics, (), w2)
         | (Returns (Some err), w2) \<Rightarrow>
             (let (r, w3) = prepareDone (Some err) w2 in (Returns r, (), w3))
         | (Returns None, w2) \<Rightarrow>
             (let (r, w3) = prepareDone None w2
              in (Returns (ce_Finalize e ctx), (), emit (Call_Finalize (target e)) w3)))"

text \<open>Lines 139-157, cache export.\<close>

definition Solve_cache ::
  "Context \<Rightarrow> Job \<Rightarrow> Result \<Rightarrow> ExporterRequest \<Rightarrow> world \<Rightarrow> error option outcome \<times> world" where
  "Solve_cache ctx j res exp w =
     (case CacheExporter exp of
        None \<Rightarrow> (Returns None, w)
      | Some e \<Rightarrow>
          (case inVertexContext (Job_Context j ctx) ''exporting cache''
                  (cache_phase e (CacheExportMode exp) res) ((), w) of
             (r, l, w') \<Rightarrow> (r, w')))"

text \<open>Lines 103-161: the two export steps and the response.\<close>

definition Solve_export ::
  "Context \<Rightarrow> Job \<Rightarrow> Result \<Rightarrow> ExporterRequest \<Rightarrow> world \<Rightarrow>
     (error + SolveResponse) outcome \<times> world" where
  "Solve_export ctx j res exp w =
     (case Solve_content ctx j res exp w of
        (Panics, exporterResponse, w1) \<Rightarrow> (Panics, w1)
      | (Returns (Some err), exporterResponse, w1) \<Rightarrow> (Returns (Inl err), w1)
      | (Returns None, exporterResponse, w1) \<Rightarrow>
          (case Solve_cache ctx j res exp w1 of
             (Panics, w2) \<Rightarrow> (Panics, w2)
           | (Returns (Some err), w2) \<Rightarrow> (Returns (Inl err), w2)
           | (Returns None, w2) \<Rightarrow>
               (Returns (Inr \<lparr>ExporterResponse = exporterResponse\<rparr>), w2)))"

text \<open>
  \<^verbatim>\<open>Solve\<close> (lines 81-162). \<open>bridge_Solve\<close> is what \<^verbatim>\<open>s.Bridge(j).Solve(ctx, req)\<close>
  answers; the bridge's own code is not among the sources. The two deferred calls run
  when the function leaves, last one first: the release of the references (deferred
  only once the solve step has succeeded), then the discard of the job.
\<close>

definition Solve ::
  "(llbBridge \<Rightarrow> Context \<Rightarrow> 'req \<Rightarrow> error + Result) \<Rightarrow> Solver \<Rightarrow> Context \<Rightarrow> string \<Rightarrow> 'req \<Rightarrow>
     ExporterRequest \<Rightarrow> world \<Rightarrow> (error + SolveResponse) outcome \<times> world" where
  "Solve bridge_Solve s ctx i req exp w =
     (case NewJob i w of
        (Inl err, w1) \<Rightarrow> (Returns (Inl err), w1)
      | (Inr j0, w1) \<Rightarrow>
          (let (j, w2) = set_SessionID j0 (session_FromContext ctx) w1
           in case bridge_Solve (Bridge s j) ctx req of
                Inl err \<Rightarrow> (Returns (Inl err), Discard j w2)
              | Inr res \<Rightarrow>
                  (let (r, w3) = Solve_export ctx j res exp w2
                   in (r, Discard j (release_refs res w3)))))"

subsection \<open>Status\<close>

text \<open>
  \<^verbatim>\<open>Status\<close> (lines 164-170). \<open>job_Status\<close> is what \<^verbatim>\<open>j.Status(ctx, statusChan)\<close>
  answers; the call, which streams into the channel, is recorded in the trace.
\<close>

definition Status ::
  "(Job \<Rightarrow> Context \<Rightarrow> nat \<Rightarrow> error option) \<Rightarrow> Context \<Rightarrow> string \<Rightarrow> nat \<Rightarrow> world \<Rightarrow>
     error option \<times> world" where
  "Status job_Status ctx i statusChan w =
     (case Get i w of
        Inl err \<Rightarrow> (Some err, w)
      | Inr j \<Rightarrow> (job_Status j ctx statusChan, emit (Call_Status (job_id j) statusChan) w))"

section \<open>Observations on traces\<close>

text \<open>
  The events the two export steps can add to the trace: calls of the exporters and
  progress writes and closes; not the release of a reference, not the discard of a job.
\<close>

fun export_phase_event :: "event \<Rightarrow> bool" where
  "export_phase_event (Call_Export n inp) = True"
| "export_phase_event (Call_ExportTo k t opt) = True"
| "export_phase_event (Call_Finalize t) = True"
| "export_phase_event (Pw_Write pw i p) = True"
| "export_phase_event (Pw_Close pw) = True"
| "export_phase_event e = False"

text \<open>
  \<open>adds P w w'\<close>: the world \<open>w'\<close> extends the trace of \<open>w\<close> by events that satisfy
  \<open>P\<close>, and has the same live jobs.
\<close>

definition adds :: "(event \<Rightarrow> bool) \<Rightarrow> world \<Rightarrow> world \<Rightarrow> bool" where
  "adds P w w' = ((\<exists>evs. trace w' = trace w @ evs \<and> list_all P evs) \<and> jobs w' = jobs w)"

text \<open>The start of the goroutine that releases a reference.\<close>

fun is_release :: "event \<Rightarrow> bool" where
  "is_release (Go_Release r) = True"
| "is_release e = False"

text \<open>Inputs for the examples.\<close>

definition w0 :: world where
  "w0 = \<lparr>trace = [], clock = 0, ids = 0, writers = 0, jobs = Map.empty\<rparr>"

definition ctx0 :: Context where
  "ctx0 = \<lparr>ctx_session = ''s1'', ctx_job = None, ctx_meta = []\<rparr>"

definition failing_phase :: "Context \<Rightarrow> unit \<times> world \<Rightarrow> error option outcome \<times> unit \<times> world" where
  "failing_phase c lw = (Returns (Some (Errorf ''boom'')), lw)"

definition s0 :: Solver where
  "s0 = \<lparr>frontends = [''dockerfile.v0''], platforms = [''linux/amd64'']\<rparr>"

definition key_ok :: "nat \<Rightarrow> ExportableCacheKey" where
  "key_ok n = \<lparr>CacheKey = n, ExportTo = (\<lambda>c t opt. None)\<rparr>"

definition key_failing :: "nat \<Rightarrow> ExportableCacheKey" where
  "key_failing n = \<lparr>CacheKey = n, ExportTo = (\<lambda>c t opt. Some (Errorf ''export failed''))\<rparr>"

definition ref1 :: CachedResult where
  "ref1 = \<lparr>ref = 1, Sys = WorkerRef (Some 11), CacheKeys = [key_ok 101, key_ok 102]\<rparr>"

definition ref2 :: CachedResult where
  "ref2 = \<lparr>ref = 2, Sys = WorkerRef (Some 12), CacheKeys = [key_ok 201]\<rparr>"

definition ref_failing :: CachedResult where
  "ref_failing = \<lparr>ref = 3, Sys = WorkerRef (Some 13), CacheKeys = [key_failing 301]\<rparr>"

definition ref_foreign :: CachedResult where
  "ref_foreign = \<lparr>ref = 4, Sys = OtherSys ''*cache.immutableRef'', CacheKeys = [key_ok 401]\<rparr>"

definition ref_nokeys :: CachedResult where
  "ref_nokeys = \<lparr>ref = 5, Sys = WorkerRef (Some 15), CacheKeys = []\<rparr>"

definition res_two :: Result where
  "res_two = \<lparr>Ref = Some ref1, Refs = Some [(''a'', Some ref2), (''b'', None)], Metadata = []\<rparr>"

definition bridge_returns :: "Result \<Rightarrow> llbBridge \<Rightarrow> Context \<Rightarrow> unit \<Rightarrow> error + Result" where
  "bridge_returns res b c req = Inr res"

definition bridge_fails :: "llbBridge \<Rightarrow> Context \<Rightarrow> unit \<Rightarrow> error + Result" where
  "bridge_fails b c req = Inl (Errorf ''solve failed'')"

definition exporter_ok :: ExporterInstance where
  "exporter_ok = \<lparr>exp_Name = ''image'',
     exp_Export = (\<lambda>c inp. (Some [(''containerimage.digest'', ''sha256:0'')], None))\<rparr>"

definition cache_exporter_ok :: CacheExporterInstance where
  "cache_exporter_ok = \<lparr>target = 7, ce_Finalize = (\<lambda>c. None)\<rparr>"

definition exp_none :: ExporterRequest where
  "exp_none = \<lparr>Exporter = None, CacheExporter = None, CacheExportMode = 0\<rparr>"

definition exp_both :: ExporterRequest where
  "exp_both = \<lparr>Exporter = Some exporter_ok, CacheExporter = Some cache_exporter_ok,
     CacheExportMode = 1\<rparr>"

definition job1 :: Job where
  "job1 = \<lparr>job_id = ''job1'', SessionID = []\<rparr>"

section \<open>The progress helpers, step by step\<close>

lemma FromContext_eq:
  "FromContext ctx opts w =
     ((\<lparr>pw_id = writers w, pw_meta = ctx_meta ctx @ opts\<rparr>, True,
       ctx\<lparr>ctx_meta := ctx_meta ctx @ opts\<rparr>),
      w\<lparr>writers := Suc (writers w)\<rparr>)"
  by (simp add: FromContext_def Let_def)

lemma notifyStarted_eq:
  "notifyStarted ctx v cached w =
     (v\<lparr>Started := Some (clock w), Completed := None, Cached := cached\<rparr>,
      w\<lparr>trace := trace w @
           [Pw_Write \<lparr>pw_id = writers w, pw_meta = ctx_meta ctx\<rparr> (DigestString (Digest v))
              (VertexP (v\<lparr>Started := Some (clock w), Completed := None, Cached := cached\<rparr>)),
            Pw_Close \<lparr>pw_id = writers w, pw_meta = ctx_meta ctx\<rparr>],
         clock := Suc (clock w), writers := Suc (writers w)\<rparr>)"
  by (simp add: notifyStarted_def FromContext_eq Now_def Write_def Close_def emit_def Let_def)

lemma notifyCompleted_eq:
  "notifyCompleted ctx v err cached w =
     (let v3 = v\<lparr>Started := (if Started v = None then Some (clock w) else Started v),
                  Completed := Some (clock w), Cached := cached,
                  Error := (case err of None \<Rightarrow> Error v | Some e \<Rightarrow> message e)\<rparr>
      in (v3,
          w\<lparr>trace := trace w @
               [Pw_Write \<lparr>pw_id = writers w, pw_meta = ctx_meta ctx\<rparr> (DigestString (Digest v))
                  (VertexP v3),
                Pw_Close \<lparr>pw_id = writers w, pw_meta = ctx_meta ctx\<rparr>],
             clock := Suc (clock w), writers := Suc (writers w)\<rparr>))"
  by (cases err) (simp_all add: notifyCompleted_def FromContext_eq Now_def Write_def Close_def emit_def Let_def)

lemma oneOffProgress_snd:
  "snd (oneOffProgress ctx i w) =
     w\<lparr>trace := trace w @
          [Pw_Write \<lparr>pw_id = writers w, pw_meta = ctx_meta ctx\<rparr> (Id i)
             (StatusP \<lparr>st_Started = Some (clock w), st_Completed = None\<rparr>)],
        clock := Suc (clock w), writers := Suc (writers w)\<rparr>"
  by (simp add: oneOffProgress_def FromContext_eq Now_def Write_def emit_def Let_def)

lemma oneOffProgress_fst:
  "fst (oneOffProgress ctx i w) err w' =
     (err,
      w'\<lparr>trace := trace w' @
           [Pw_Write \<lparr>pw_id = writers w, pw_meta = ctx_meta ctx\<rparr> (Id i)
              (StatusP \<lparr>st_Started = Some (clock w), st_Completed = Some (clock w')\<rparr>),
            Pw_Close \<lparr>pw_id = writers w, pw_meta = ctx_meta ctx\<rparr>],
         clock := Suc (clock w')\<rparr>)"
  by (simp add: oneOffProgress_def FromContext_eq Now_def Write_def Close_def emit_def Let_def)

lemma adds_refl: "adds P w w"
  by (simp add: adds_def)

lemma adds_trans: "adds P w w1 \<Longrightarrow> adds P w1 w2 \<Longrightarrow> adds P w w2"
  by (auto simp: adds_def)

lemma adds_emit: "P e \<Longrightarrow> adds P w (emit e w)"
  by (simp add: adds_def emit_def)

lemma adds_filter:
  assumes "adds P w w'" and "\<And>e. P e \<Longrightarrow> \<not> Q e"
  shows "filter Q (trace w') = filter Q (trace w)"
proof -
  from assms(1) obtain evs where t: "trace w' = trace w @ evs" and p: "list_all P evs"
    by (auto simp: adds_def)
  from p assms(2) have "filter Q evs = []"
    by (auto simp: list_all_iff filter_empty_conv)
  with t show ?thesis by simp
qed

lemma adds_mem: "adds P w w' \<Longrightarrow> e \<in> set (trace w) \<Longrightarrow> e \<in> set (trace w')"
  by (auto simp: adds_def)

lemma adds_notifyStarted:
  "adds export_phase_event w (snd (notifyStarted ctx v c w))"
  by (simp add: notifyStarted_eq adds_def)

lemma adds_notifyCompleted:
  "adds export_phase_event w (snd (notifyCompleted ctx v err c w))"
  by (simp add: notifyCompleted_eq adds_def Let_def)

lemma adds_inVertexContext:
  assumes "\<And>c l w. adds export_phase_event w (snd (snd (f c (l, w))))"
  shows "adds export_phase_event w (snd (snd (inVertexContext ctx name f (l, w))))"
proof -
  let ?d = "FromBytes (ids w)"
  let ?v = "\<lparr>Digest = ?d, Name = name, Started = None, Completed = None, Cached = False, Error = []\<rparr>"
  let ?c = "ctx\<lparr>ctx_meta := ctx_meta ctx @ [(''vertex'', ?d)]\<rparr>"
  let ?pw = "\<lparr>pw_id = writers w, pw_meta = ctx_meta ctx @ [(''vertex'', ?d)]\<rparr>"
  let ?w2 = "w\<lparr>ids := Suc (ids w), writers := Suc (writers w)\<rparr>"
  let ?w3 = "snd (notifyStarted ?c ?v False ?w2)"
  let ?v' = "fst (notifyStarted ?c ?v False ?w2)"
  obtain r l' w4 where f: "f ?c (l, ?w3) = (r, l', w4)"
    by (cases "f ?c (l, ?w3)") auto
  have a2: "adds export_phase_event w ?w2" by (simp add: adds_def)
  have a3: "adds export_phase_event ?w2 ?w3" by (rule adds_notifyStarted)
  have a4: "adds export_phase_event ?w3 w4" using assms[of ?w3 ?c l] f by simp
  have a04: "adds export_phase_event w w4" using a2 a3 a4 by (blast intro: adds_trans)
  show ?thesis
  proof (cases r)
    case Panics
    then have "snd (snd (inVertexContext ctx name f (l, w))) = Close ?pw w4"
      using f by (simp add: inVertexContext_def NewID_def FromContext_eq Let_def split_def)
    moreover have "adds export_phase_event w4 (Close ?pw w4)"
      by (simp add: Close_def adds_emit)
    ultimately show ?thesis using a04 by (auto intro: adds_trans)
  next
    case (Returns err)
    then have "snd (snd (inVertexContext ctx name f (l, w))) =
                 Close ?pw (snd (notifyCompleted ?c ?v' err False w4))"
      using f by (simp add: inVertexContext_def NewID_def FromContext_eq Let_def split_def)
    moreover have "adds export_phase_event w4 (snd (notifyCompleted ?c ?v' err False w4))"
      by (rule adds_notifyCompleted)
    moreover have "adds export_phase_event (snd (notifyCompleted ?c ?v' err False w4))
                     (Close ?pw (snd (notifyCompleted ?c ?v' err False w4)))"
      by (simp add: Close_def adds_emit)
    ultimately show ?thesis using a04 by (auto intro: adds_trans)
  qed
qed

lemma adds_each:
  assumes "\<And>r w. adds P w (snd (fn r w))"
  shows "adds P w (snd (each fn rs w))"
proof (induction rs arbitrary: w)
  case Nil
  show ?case by (simp add: adds_refl)
next
  case (Cons r rs)
  obtain o1 w1 where f: "fn r w = (o1, w1)" by (cases "fn r w") auto
  have a: "adds P w w1" using assms[of w r] f by simp
  show ?case
  proof (cases o1)
    case Panics
    with f a show ?thesis by simp
  next
    case (Returns err)
    show ?thesis
    proof (cases err)
      case None
      with Returns f a Cons.IH[of w1] show ?thesis by (auto intro: adds_trans)
    next
      case (Some e)
      with Returns f a show ?thesis by simp
    qed
  qed
qed

lemma adds_export_first_key:
  "adds export_phase_event w (snd (export_first_key ctx e mode r w))"
  by (cases "CacheKeys r") (simp_all add: export_first_key_def adds_refl adds_emit Let_def)

lemma adds_cache_phase:
  "adds export_phase_event w (snd (snd (cache_phase e mode res c (l, w))))"
proof -
  let ?w1 = "snd (oneOffProgress c ''preparing build cache for export'' w)"
  let ?pd = "fst (oneOffProgress c ''preparing build cache for export'' w)"
  obtain r w2 where e: "EachRef res (export_first_key c e mode) ?w1 = (r, w2)"
    by (cases "EachRef res (export_first_key c e mode) ?w1") auto
  have a1: "adds export_phase_event w ?w1"
    by (simp add: oneOffProgress_snd adds_def)
  have a2: "adds export_phase_event ?w1 w2"
    using adds_each[of export_phase_event "export_first_key c e mode" ?w1 "result_refs res"] e
    by (simp add: EachRef_def adds_export_first_key)
  have a3: "adds export_phase_event w2 (snd (?pd err w2))" for err
    by (simp add: oneOffProgress_fst adds_def)
  have a12: "adds export_phase_event w w2" using a1 a2 by (rule adds_trans)
  show ?thesis
  proof (cases r)
    case Panics
    with e a12 show ?thesis by (simp add: cache_phase_def split_def Let_def)
  next
    case (Returns err)
    show ?thesis
    proof (cases err)
      case None
      with Returns e have "snd (snd (cache_phase e mode res c (l, w))) =
          emit (Call_Finalize (target e)) (snd (?pd None w2))"
        by (simp add: cache_phase_def split_def Let_def)
      moreover have "adds export_phase_event (snd (?pd None w2))
          (emit (Call_Finalize (target e)) (snd (?pd None w2)))"
        by (simp add: adds_emit)
      ultimately show ?thesis using a12 a3[of None] by (auto intro: adds_trans)
    next
      case (Some x)
      with Returns e have "snd (snd (cache_phase e mode res c (l, w))) = snd (?pd (Some x) w2)"
        by (simp add: cache_phase_def split_def Let_def)
      then show ?thesis using a12 a3[of "Some x"] by (auto intro: adds_trans)
    qed
  qed
qed

lemma adds_Solve_cache:
  "adds export_phase_event w (snd (Solve_cache ctx j res exp w))"
proof (cases "CacheExporter exp")
  case None
  then show ?thesis by (simp add: Solve_cache_def adds_refl)
next
  case (Some e)
  then show ?thesis
    using adds_inVertexContext[of "cache_phase e (CacheExportMode exp) res" w "Job_Context j ctx"
        "''exporting cache''" "()"]
    by (simp add: Solve_cache_def adds_cache_phase split_def)
qed

lemma adds_Solve_content:
  "adds export_phase_event w (snd (snd (Solve_content ctx j res exp w)))"
proof (cases "Exporter exp")
  case None
  then show ?thesis by (simp add: Solve_content_def adds_refl)
next
  case (Some x)
  show ?thesis
  proof (cases "Solve_inp res")
    case (Inl e)
    with Some show ?thesis by (simp add: Solve_content_def adds_refl)
  next
    case (Inr inp)
    have "adds export_phase_event w
            (snd (snd (inVertexContext (Job_Context j ctx) (exp_Name x)
                 (\<lambda>ctx (l, w).
                    let (resp, err) = exp_Export x ctx inp
                    in (Returns err, resp, emit (Call_Export (exp_Name x) inp) w))
                 (None, w))))"
      by (rule adds_inVertexContext) (simp add: split_def Let_def adds_emit)
    with Some Inr show ?thesis by (simp add: Solve_content_def)
  qed
qed

lemma adds_Solve_export:
  "adds export_phase_event w (snd (Solve_export ctx j res exp w))"
proof -
  obtain r1 resp w1 where c: "Solve_content ctx j res exp w = (r1, resp, w1)"
    by (cases "Solve_content ctx j res exp w") auto
  obtain r2 w2 where d: "Solve_cache ctx j res exp w1 = (r2, w2)"
    by (cases "Solve_cache ctx j res exp w1") auto
  have a1: "adds export_phase_event w w1" using adds_Solve_content[of w ctx j res exp] c by simp
  have a2: "adds export_phase_event w1 w2" using adds_Solve_cache[of w1 ctx j res exp] d by simp
  have a12: "adds export_phase_event w w2" using a1 a2 by (rule adds_trans)
  show ?thesis using c d a1 a12
    by (simp add: Solve_export_def split: outcome.splits option.splits)
qed

section \<open>The vertex-wrapped phase runner\<close>

text \<open>
  C4. \<^verbatim>\<open>inVertexContext ctx name f\<close> draws a fresh identity \<open>ids w\<close> for the vertex and
  tags the child context with its digest; it writes the started vertex (start time set,
  not cached, no completion time) and closes that writer; it calls \<open>f\<close> with the child
  context; when \<open>f\<close> returns \<open>err\<close> (nil or an error) it writes the completed vertex
  (same digest, name and start time, completion time set, not cached, the message of
  \<open>err\<close> as its error when there is one), closes the writers, and returns \<open>err\<close>
  unchanged.
\<close>

theorem inVertexContext_events:
  fixes f :: "Context \<Rightarrow> 'l \<times> world \<Rightarrow> error option outcome \<times> 'l \<times> world"
  assumes "f (ctx\<lparr>ctx_meta := ctx_meta ctx @ [(''vertex'', FromBytes (ids w))]\<rparr>)
             (l, w\<lparr>trace := trace w @
                      [Pw_Write \<lparr>pw_id = Suc (writers w),
                                 pw_meta = ctx_meta ctx @ [(''vertex'', FromBytes (ids w))]\<rparr>
                         (DigestString (FromBytes (ids w)))
                         (VertexP \<lparr>Digest = FromBytes (ids w), Name = name,
                                    Started = Some (clock w), Completed = None,
                                    Cached = False, Error = []\<rparr>),
                       Pw_Close \<lparr>pw_id = Suc (writers w),
                                 pw_meta = ctx_meta ctx @ [(''vertex'', FromBytes (ids w))]\<rparr>],
                    clock := Suc (clock w), ids := Suc (ids w),
                    writers := Suc (Suc (writers w))\<rparr>)
           = (Returns err, l', w')"
  shows "inVertexContext ctx name f (l, w) =
           (Returns err, l',
            w'\<lparr>trace := trace w' @
                   [Pw_Write \<lparr>pw_id = writers w',
                              pw_meta = ctx_meta ctx @ [(''vertex'', FromBytes (ids w))]\<rparr>
                      (DigestString (FromBytes (ids w)))
                      (VertexP \<lparr>Digest = FromBytes (ids w), Name = name,
                                 Started = Some (clock w), Completed = Some (clock w'),
                                 Cached = False,
                                 Error = (case err of None \<Rightarrow> [] | Some e \<Rightarrow> message e)\<rparr>),
                    Pw_Close \<lparr>pw_id = writers w',
                              pw_meta = ctx_meta ctx @ [(''vertex'', FromBytes (ids w))]\<rparr>,
                    Pw_Close \<lparr>pw_id = writers w,
                              pw_meta = ctx_meta ctx @ [(''vertex'', FromBytes (ids w))]\<rparr>],
                 clock := Suc (clock w'), writers := Suc (writers w')\<rparr>)"
  using assms
  by (cases w; cases w'; cases err)
     (simp_all add: inVertexContext_def NewID_def FromContext_eq notifyStarted_eq notifyCompleted_eq
        Close_def emit_def Let_def)

theorem inVertexContext_events_witness:
  "inVertexContext ctx0 ''exporting cache'' failing_phase ((), w0) =
     (Returns (Some (Errorf ''boom'')), (),
      \<lparr>trace =
         [Pw_Write \<lparr>pw_id = 1, pw_meta = [(''vertex'', FromBytes 0)]\<rparr> (DigestString (FromBytes 0))
            (VertexP \<lparr>Digest = FromBytes 0, Name = ''exporting cache'', Started = Some 0,
                       Completed = None, Cached = False, Error = []\<rparr>),
          Pw_Close \<lparr>pw_id = 1, pw_meta = [(''vertex'', FromBytes 0)]\<rparr>,
          Pw_Write \<lparr>pw_id = 2, pw_meta = [(''vertex'', FromBytes 0)]\<rparr> (DigestString (FromBytes 0))
            (VertexP \<lparr>Digest = FromBytes 0, Name = ''exporting cache'', Started = Some 0,
                       Completed = Some 1, Cached = False, Error = ''boom''\<rparr>),
          Pw_Close \<lparr>pw_id = 2, pw_meta = [(''vertex'', FromBytes 0)]\<rparr>,
          Pw_Close \<lparr>pw_id = 0, pw_meta = [(''vertex'', FromBytes 0)]\<rparr>],
       clock = 2, ids = 1, writers = 3, jobs = Map.empty\<rparr>)"
  using inVertexContext_events [of failing_phase ctx0 w0 "()" "''exporting cache''"
      "Some (Errorf ''boom'')" "()"]
  by (simp add: failing_phase_def w0_def ctx0_def)

section \<open>Solve: the deferred release and discard\<close>

lemma each_release:
  "each (\<lambda>r w. (Returns None, emit (Go_Release (ref r)) w)) rs w =
     (Returns None, w\<lparr>trace := trace w @ map (\<lambda>r. Go_Release (ref r)) rs\<rparr>)"
  by (induction rs arbitrary: w) (simp_all add: emit_def)

lemma release_refs_eq:
  "release_refs res w = w\<lparr>trace := trace w @ map (\<lambda>r. Go_Release (ref r)) (result_refs res)\<rparr>"
  by (simp add: release_refs_def EachRef_def each_release)

lemma NewJob_Inr:
  "NewJob i w = (Inr j, w1) \<Longrightarrow>
     jobs w i = None \<and> j = \<lparr>job_id = i, SessionID = []\<rparr> \<and> w1 = w\<lparr>jobs := (jobs w)(i \<mapsto> j)\<rparr>"
  by (auto simp: NewJob_def Let_def split: option.splits)

lemma Solve_unfold:
  assumes "jobs w i = None"
  shows "Solve bridge_Solve s ctx i req exp w =
     (let j = \<lparr>job_id = i, SessionID = session_FromContext ctx\<rparr>;
          w2 = w\<lparr>jobs := (jobs w)(i \<mapsto> j)\<rparr>
      in case bridge_Solve (Bridge s j) ctx req of
           Inl err \<Rightarrow> (Returns (Inl err), Discard j w2)
         | Inr res \<Rightarrow>
             (fst (Solve_export ctx j res exp w2),
              Discard j (release_refs res (snd (Solve_export ctx j res exp w2)))))"
  using assms
  by (simp add: Solve_def NewJob_def set_SessionID_def Let_def split_def split: sum.splits)

lemma Solve_bridge_error:
  assumes "jobs w i = None"
    and "bridge_Solve (Bridge s \<lparr>job_id = i, SessionID = session_FromContext ctx\<rparr>) ctx req = Inl err"
  shows "Solve bridge_Solve s ctx i req exp w =
           (Returns (Inl err), w\<lparr>trace := trace w @ [Call_Discard i]\<rparr>)"
proof -
  have "(jobs w)(i := None) = jobs w" using assms(1) by (simp add: fun_upd_idem)
  then show ?thesis using assms
    by (cases w) (simp add: Solve_unfold Discard_def emit_def Let_def)
qed

lemma Solve_shape:
  assumes "jobs w i = None"
    and "bridge_Solve (Bridge s \<lparr>job_id = i, SessionID = session_FromContext ctx\<rparr>) ctx req = Inr res"
  shows "\<exists>evs. list_all export_phase_event evs \<and>
           trace (snd (Solve bridge_Solve s ctx i req exp w)) =
             trace w @ evs @ map (\<lambda>r. Go_Release (ref r)) (result_refs res) @ [Call_Discard i] \<and>
           jobs (snd (Solve bridge_Solve s ctx i req exp w)) = jobs w"
proof -
  let ?j = "\<lparr>job_id = i, SessionID = session_FromContext ctx\<rparr>"
  let ?w2 = "w\<lparr>jobs := (jobs w)(i \<mapsto> ?j)\<rparr>"
  let ?w3 = "snd (Solve_export ctx ?j res exp ?w2)"
  have s: "snd (Solve bridge_Solve s ctx i req exp w) = Discard ?j (release_refs res ?w3)"
    using assms by (simp add: Solve_unfold Let_def)
  have "adds export_phase_event ?w2 ?w3" by (rule adds_Solve_export)
  then obtain evs where t: "trace ?w3 = trace w @ evs" and p: "list_all export_phase_event evs"
    and jb: "jobs ?w3 = (jobs w)(i \<mapsto> ?j)"
    by (auto simp: adds_def)
  have "(jobs w)(i := None) = jobs w" using assms(1) by (simp add: fun_upd_idem)
  then have "trace (Discard ?j (release_refs res ?w3)) =
          trace w @ evs @ map (\<lambda>r. Go_Release (ref r)) (result_refs res) @ [Call_Discard i]"
    and "jobs (Discard ?j (release_refs res ?w3)) = jobs w"
    using t jb by (simp_all add: Discard_def emit_def release_refs_eq)
  with p s show ?thesis by auto
qed

lemma export_phase_not_release: "export_phase_event e \<Longrightarrow> \<not> is_release e"
  by (cases e) simp_all

text \<open>
  C1. When the job is created and the bridge's solve step returns a result, the
  goroutines started by Solve to release references are exactly one per reference held
  in the result, the primary reference first and then the named ones, whatever the
  export request is and however the export steps end (response, error or panic). The
  start of the goroutine is the whole of the release in Solve: nothing waits for it.
\<close>

theorem Solve_releases_each_ref:
  assumes "NewJob i w = (Inr j, w1)"
    and "bridge_Solve (Bridge s (j\<lparr>SessionID := session_FromContext ctx\<rparr>)) ctx req = Inr res"
  shows "filter is_release (trace (snd (Solve bridge_Solve s ctx i req exp w))) =
           filter is_release (trace w) @ map (\<lambda>r. Go_Release (ref r)) (result_refs res)"
proof -
  from NewJob_Inr[OF assms(1)] have n: "jobs w i = None" and j: "j = \<lparr>job_id = i, SessionID = []\<rparr>"
    by auto
  from assms(2) j
  have b: "bridge_Solve (Bridge s \<lparr>job_id = i, SessionID = session_FromContext ctx\<rparr>) ctx req = Inr res"
    by simp
  from Solve_shape[of w i bridge_Solve s ctx req res exp, OF n b] obtain evs where
    p: "list_all export_phase_event evs" and
    t: "trace (snd (Solve bridge_Solve s ctx i req exp w)) =
          trace w @ evs @ map (\<lambda>r. Go_Release (ref r)) (result_refs res) @ [Call_Discard i]"
    by blast
  have "filter is_release evs = []"
    using p by (auto simp: list_all_iff filter_empty_conv dest: export_phase_not_release)
  moreover have "filter is_release (map (\<lambda>r. Go_Release (ref r)) rs) = map (\<lambda>r. Go_Release (ref r)) rs" for rs
    by (induction rs) simp_all
  ultimately show ?thesis using t by simp
qed

theorem Solve_releases_each_ref_witness:
  "filter is_release
     (trace (snd (Solve (bridge_returns res_two) s0 ctx0 ''job1'' () exp_both w0))) =
   [Go_Release 1, Go_Release 2]"
  using Solve_releases_each_ref [of "''job1''" w0 job1 "w0\<lparr>jobs := [''job1'' \<mapsto> job1]\<rparr>"
      "bridge_returns res_two" s0 ctx0 "()" res_two exp_both]
  by (simp add: NewJob_def Let_def w0_def job1_def bridge_returns_def result_refs_def res_two_def
      map_filter_simps ref1_def ref2_def)

text \<open>
  C7. When the job is created, the call of its \<^verbatim>\<open>Discard\<close> is the last event of Solve
  on every path, it happens once, and the job is no longer live afterwards. When the
  bridge's solve step returns an error, Solve returns that error and does nothing but
  discard the job.
\<close>

theorem Solve_discards_job:
  assumes "NewJob i w = (Inr j, w1)"
  shows "(\<exists>evs. trace (snd (Solve bridge_Solve s ctx i req exp w)) = trace w @ evs @ [Call_Discard i] \<and>
            Call_Discard i \<notin> set evs) \<and>
         jobs (snd (Solve bridge_Solve s ctx i req exp w)) i = None \<and>
         (\<forall>err. bridge_Solve (Bridge s (j\<lparr>SessionID := session_FromContext ctx\<rparr>)) ctx req = Inl err \<longrightarrow>
            Solve bridge_Solve s ctx i req exp w =
              (Returns (Inl err), w\<lparr>trace := trace w @ [Call_Discard i]\<rparr>))"
proof -
  from NewJob_Inr[OF assms] have n: "jobs w i = None" and j: "j = \<lparr>job_id = i, SessionID = []\<rparr>"
    by auto
  let ?j = "\<lparr>job_id = i, SessionID = session_FromContext ctx\<rparr>"
  have jj: "j\<lparr>SessionID := session_FromContext ctx\<rparr> = ?j" using j by simp
  show ?thesis
  proof (cases "bridge_Solve (Bridge s ?j) ctx req")
    case (Inl err)
    from Solve_bridge_error[of w i bridge_Solve s ctx req err exp, OF n Inl] n Inl jj
    show ?thesis by simp
  next
    case (Inr res)
    from Solve_shape[of w i bridge_Solve s ctx req res exp, OF n Inr] obtain evs where
      p: "list_all export_phase_event evs" and
      t: "trace (snd (Solve bridge_Solve s ctx i req exp w)) =
            trace w @ evs @ map (\<lambda>r. Go_Release (ref r)) (result_refs res) @ [Call_Discard i]" and
      jb: "jobs (snd (Solve bridge_Solve s ctx i req exp w)) = jobs w"
      by blast
    have "Call_Discard i \<notin> set (evs @ map (\<lambda>r. Go_Release (ref r)) (result_refs res))"
      using p by (auto simp: list_all_iff)
    with t have "\<exists>evs. trace (snd (Solve bridge_Solve s ctx i req exp w)) = trace w @ evs @ [Call_Discard i] \<and>
            Call_Discard i \<notin> set evs"
      by (intro exI[of _ "evs @ map (\<lambda>r. Go_Release (ref r)) (result_refs res)"]) simp
    with jb n Inr jj show ?thesis by simp
  qed
qed

theorem Solve_discards_job_witness:
  "(\<exists>evs. trace (snd (Solve bridge_fails s0 ctx0 ''job1'' () exp_both w0)) =
            evs @ [Call_Discard ''job1''] \<and> Call_Discard ''job1'' \<notin> set evs) \<and>
   jobs (snd (Solve bridge_fails s0 ctx0 ''job1'' () exp_both w0)) ''job1'' = None \<and>
   Solve bridge_fails s0 ctx0 ''job1'' () exp_both w0 =
     (Returns (Inl (Errorf ''solve failed'')), w0\<lparr>trace := [Call_Discard ''job1'']\<rparr>)"
  using Solve_discards_job [of "''job1''" w0 job1 "w0\<lparr>jobs := [''job1'' \<mapsto> job1]\<rparr>"
      bridge_fails s0 ctx0 "()" exp_both]
  by (simp add: NewJob_def Let_def w0_def job1_def bridge_fails_def)

text \<open>
  C6. With neither a content exporter nor a cache exporter, when the job is created and
  the solve step succeeds, Solve returns a response whose map is the nil map (it has no
  entry) and no error; all it adds to the trace is the release of the references and
  the discard of the job, so no vertex is written.
\<close>

theorem Solve_no_exporters:
  assumes "NewJob i w = (Inr j, w1)"
    and "bridge_Solve (Bridge s (j\<lparr>SessionID := session_FromContext ctx\<rparr>)) ctx req = Inr res"
    and "Exporter exp = None" and "CacheExporter exp = None"
  shows "Solve bridge_Solve s ctx i req exp w =
           (Returns (Inr \<lparr>ExporterResponse = None\<rparr>),
            w\<lparr>trace := trace w @ map (\<lambda>r. Go_Release (ref r)) (result_refs res) @ [Call_Discard i]\<rparr>)"
proof -
  from NewJob_Inr[OF assms(1)] have n: "jobs w i = None" and j: "j = \<lparr>job_id = i, SessionID = []\<rparr>"
    by auto
  have "(jobs w)(i := None) = jobs w" using n by (simp add: fun_upd_idem)
  then show ?thesis using assms(2-) n j
    by (cases w) (simp add: Solve_unfold Discard_def emit_def Let_def
        Solve_export_def Solve_content_def Solve_cache_def release_refs_eq)
qed

theorem Solve_no_exporters_witness:
  "Solve (bridge_returns res_two) s0 ctx0 ''job1'' () exp_none w0 =
     (Returns (Inr \<lparr>ExporterResponse = None\<rparr>),
      w0\<lparr>trace := [Go_Release 1, Go_Release 2, Call_Discard ''job1'']\<rparr>)"
  using Solve_no_exporters [of "''job1''" w0 job1 "w0\<lparr>jobs := [''job1'' \<mapsto> job1]\<rparr>"
      "bridge_returns res_two" s0 ctx0 "()" res_two exp_none]
  by (simp add: NewJob_def Let_def w0_def job1_def bridge_returns_def result_refs_def res_two_def
      map_filter_simps ref1_def ref2_def exp_none_def)

section \<open>Status\<close>

text \<open>
  C8. For an id with no live job (never submitted, or discarded) \<^verbatim>\<open>Status\<close> returns
  the not-found error and leaves the world as it is: nothing is sent to the channel.
  The error is the one the lookup gives, unchanged, and it differs from the conflict
  error of job creation.
\<close>

theorem Status_not_found:
  "(jobs w i = None \<longrightarrow> Status job_Status ctx i statusChan w = (Some (ErrJobNotFound i), w)) \<and>
   Status job_Status ctx (job_id j) statusChan (Discard j w) =
     (Some (ErrJobNotFound (job_id j)), Discard j w) \<and>
   (\<forall>err. Get i w = Inl err \<longrightarrow> Status job_Status ctx i statusChan w = (Some err, w)) \<and>
   ErrJobNotFound i \<noteq> ErrJobExists i'"
  by (simp add: Status_def Get_def Discard_def emit_def ErrJobNotFound_def ErrJobExists_def)

theorem Status_not_found_witness:
  "Status (\<lambda>j c ch. None) ctx0 ''job1'' 0 w0 = (Some (ErrJobNotFound ''job1''), w0) \<and>
   Status (\<lambda>j c ch. None) ctx0 ''job1'' 0 (Discard job1 (w0\<lparr>jobs := [''job1'' \<mapsto> job1]\<rparr>)) =
     (Some (ErrJobNotFound ''job1''), w0\<lparr>trace := [Call_Discard ''job1'']\<rparr>)"
  using Status_not_found [of w0 "''job1''" "\<lambda>j c ch. None" ctx0 0 job1 "''job1''"]
    Status_not_found [of "w0\<lparr>jobs := [''job1'' \<mapsto> job1]\<rparr>" "''job1''" "\<lambda>j c ch. None" ctx0 0 job1 "''job1''"]
  by (simp add: w0_def job1_def Discard_def emit_def)

end
